theory Spec2Isabelle
  imports Main
begin

section \<open>Festival backend: data model\<close>

text \<open>
  The service of \<^verbatim>\<open>backend/server.py\<close> keeps three MongoDB collections and serves five
  routes under \<^verbatim>\<open>/api\<close>. Python's \<^verbatim>\<open>str\<close> is modelled by \<^typ>\<open>string\<close>; text outside ASCII
  is written as its UTF-8 bytes (the service only compares strings for equality). Python's
  \<^verbatim>\<open>int\<close> is unbounded and is modelled by \<^typ>\<open>int\<close>.
\<close>

text \<open>
  The fields typed \<^verbatim>\<open>dict\<close> and \<^verbatim>\<open>List[dict]\<close> hold JSON-like values. A dictionary is an
  association list, in the order of the source's literal.
\<close>

datatype pyval =
    PStr string
  | PInt int
  | PList "pyval list"
  | PDict "(string \<times> pyval) list"

type_synonym pydict = "(string \<times> pyval) list"

text \<open>The integers that a value holds, in document order.\<close>

fun pyval_ints :: "pyval \<Rightarrow> int list" where
  "pyval_ints (PStr s) = []"
| "pyval_ints (PInt i) = [i]"
| "pyval_ints (PList vs) = concat (map pyval_ints vs)"
| "pyval_ints (PDict kvs) = concat (map (\<lambda>kv. pyval_ints (snd kv)) kvs)"

definition pydict_ints :: "pydict \<Rightarrow> int list" where
  "pydict_ints d = pyval_ints (PDict d)"

text \<open>A \<^verbatim>\<open>datetime\<close> value, as microseconds since the epoch.\<close>

type_synonym datetime = nat

text \<open>
  The pydantic models (lines 30 to 86). Field names carry a prefix for their class, since
  \<^verbatim>\<open>id\<close>, \<^verbatim>\<open>name\<close> and \<^verbatim>\<open>created_at\<close> occur in several of them.
\<close>

record Festival =
  fes_id :: string
  fes_name :: string
  fes_year :: int
  fes_location :: string
  fes_date :: string
  fes_description :: string
  fes_venue_info :: pydict
  fes_sound_system :: pydict
  fes_family_services :: "pydict list"
  fes_ticket_info :: pydict
  fes_created_at :: datetime

record DJProfile =
  dj_id :: string
  dj_name :: string
  dj_stage_name :: string
  dj_location :: string
  dj_music_styles :: "string list"
  dj_career_start :: int
  dj_bio :: string
  dj_philosophy :: pydict
  dj_timeline :: "pydict list"
  dj_social_links :: pydict
  dj_created_at :: datetime

record TicketReservation =
  res_id :: string
  res_festival_id :: string
  res_name :: string
  res_email :: string
  res_phone :: string
  res_ticket_type :: string
  res_quantity :: int
  res_total_price :: int
  res_status :: string
  res_created_at :: datetime

record NFTMoment =
  nft_id :: string
  nft_title :: string
  nft_description :: string
  nft_image_base64 :: string
  nft_moment_timestamp :: string
  nft_rarity :: string
  nft_attributes :: pydict
  nft_created_at :: datetime

text \<open>The request body of the reservation route. It has no \<^verbatim>\<open>total_price\<close> field.\<close>

record TicketReservationCreate =
  req_festival_id :: string
  req_name :: string
  req_email :: string
  req_phone :: string
  req_ticket_type :: string
  req_quantity :: int

text \<open>
  Every model draws its \<^verbatim>\<open>id\<close> from \<^verbatim>\<open>str(uuid.uuid4())\<close> and its \<^verbatim>\<open>created_at\<close> from
  \<^verbatim>\<open>datetime.utcnow()\<close> when it is constructed. The two values drawn for one construction
  are an explicit input of the model.
\<close>

record defaults =
  uuid4 :: string
  utcnow :: datetime

text \<open>
  What a handler can raise: the \<^verbatim>\<open>HTTPException\<close> of the source, and the \<^verbatim>\<open>OverflowError\<close>
  that the store's driver raises from \<^verbatim>\<open>insert_one\<close> (the server answers it with status 500).
\<close>

datatype raised = HTTPException (status_code: int) (detail: string) | OverflowError

text \<open>The integers of the documents that the service inserts, field by field.\<close>

definition Festival_ints :: "Festival \<Rightarrow> int list" where
  "Festival_ints f =
     fes_year f # pydict_ints (fes_venue_info f) @ pydict_ints (fes_sound_system f)
       @ concat (map pydict_ints (fes_family_services f)) @ pydict_ints (fes_ticket_info f)"

definition DJProfile_ints :: "DJProfile \<Rightarrow> int list" where
  "DJProfile_ints p =
     dj_career_start p # pydict_ints (dj_philosophy p)
       @ concat (map pydict_ints (dj_timeline p)) @ pydict_ints (dj_social_links p)"

definition TicketReservation_ints :: "TicketReservation \<Rightarrow> int list" where
  "TicketReservation_ints r = [res_quantity r, res_total_price r]"

subsection \<open>The document store\<close>

text \<open>
  A collection is the list of its documents in insertion order. The documents are the
  \<^verbatim>\<open>.dict()\<close> images of the models, so each collection is typed by its model (the \<^verbatim>\<open>_id\<close>
  that the store adds is dropped again when a document is read back into its model).
  A stored document is never an empty dictionary, so the source's test \<^verbatim>\<open>if not doc\<close> on
  the result of \<^verbatim>\<open>find_one\<close> is the test for \<^verbatim>\<open>None\<close>.
\<close>

record db =
  festivals :: "Festival list"
  dj_profiles :: "DJProfile list"
  ticket_reservations :: "TicketReservation list"

definition find_one :: "('a \<Rightarrow> bool) \<Rightarrow> 'a list \<Rightarrow> 'a option" where
  "find_one flt coll = List.find flt coll"

definition find_to_list :: "nat \<Rightarrow> 'a list \<Rightarrow> 'a list" where
  "find_to_list n coll = take n coll"

text \<open>
  \<^verbatim>\<open>insert_one\<close> encodes the document before it sends it. The store's integers are signed
  and at most 8 bytes wide: on a document that holds an integer outside that range the
  driver raises \<^verbatim>\<open>OverflowError\<close> and nothing is written. Otherwise the document is
  appended. \<open>ints\<close> gives the integers of a document of the collection. A lost connection
  and the store's limit on the size of a document are outside the model.
\<close>

definition fits_int64 :: "int \<Rightarrow> bool" where
  "fits_int64 i = (- 9223372036854775808 \<le> i \<and> i \<le> 9223372036854775807)"

definition insert_one :: "('a \<Rightarrow> int list) \<Rightarrow> 'a \<Rightarrow> 'a list \<Rightarrow> raised + 'a list" where
  "insert_one ints doc coll =
     (if list_all fits_int64 (ints doc) then Inr (coll @ [doc]) else Inl OverflowError)"

text \<open>Python's \<^verbatim>\<open>dict.get(key, default)\<close> and \<^verbatim>\<open>str.startswith\<close>.\<close>

definition dict_get :: "('k \<times> 'v) list \<Rightarrow> 'k \<Rightarrow> 'v \<Rightarrow> 'v" where
  "dict_get d k dflt = (case map_of d k of None \<Rightarrow> dflt | Some v \<Rightarrow> v)"

definition startswith :: "string \<Rightarrow> string \<Rightarrow> bool" where
  "startswith s p = (take (length p) s = p)"

subsection \<open>Seed content\<close>

text \<open>
  The Japanese text of the seed payloads and of the moment records, as UTF-8 bytes. Each
  constant is named after the line of \<^verbatim>\<open>server.py\<close> that holds the literal and its position
  on that line.
\<close>

definition utf8_L97_1 :: string where
  "utf8_L97_1 =
   [CHR 0xE5, CHR 0xA5, CHR 0x88, CHR 0xE8, CHR 0x89, CHR 0xAF, CHR 0xE7, CHR 0x9C, CHR 0x8C,
   CHR 0xE5, CHR 0xA4, CHR 0xA9, CHR 0xE5, CHR 0xB7, CHR 0x9D, CHR 0xE6, CHR 0x9D,
   CHR 0x91] @ '' '' @ [CHR 0xE3, CHR 0x83, CHR 0x95, CHR 0xE3, CHR 0x82, CHR 0xA9, CHR 0xE3,
   CHR 0x83, CHR 0xAC, CHR 0xE3, CHR 0x82, CHR 0xB9, CHR 0xE3, CHR 0x83, CHR 0x88, CHR 0xE3,
   CHR 0x83, CHR 0xBB, CHR 0xE3, CHR 0x82, CHR 0xA4, CHR 0xE3, CHR 0x83, CHR 0xB3, CHR 0xE6,
   CHR 0xB4, CHR 0x9E, CHR 0xE5, CHR 0xB7, CHR 0x9D]"

definition utf8_L98_1 :: string where
  "utf8_L98_1 =
   ''2025'' @ [CHR 0xE5, CHR 0xB9, CHR 0xB4] @ ''7'' @ [CHR 0xE6, CHR 0x9C,
   CHR 0x88] @ ''26'' @ [CHR 0xE6, CHR 0x97, CHR 0xA5] @ ''-27'' @ [CHR 0xE6, CHR 0x97,
   CHR 0xA5]"

definition utf8_L99_1 :: string where
  "utf8_L99_1 =
   [CHR 0xE8, CHR 0x87, CHR 0xAA, CHR 0xE7, CHR 0x84, CHR 0xB6, CHR 0xE3, CHR 0x81, CHR 0xA8,
   CHR 0xE9, CHR 0x9B, CHR 0xBB, CHR 0xE5, CHR 0xAD, CHR 0x90, CHR 0xE9, CHR 0x9F, CHR 0xB3,
   CHR 0xE6, CHR 0xA5, CHR 0xBD, CHR 0xE3, CHR 0x81, CHR 0x8C, CHR 0xE7, CHR 0xB9, CHR 0x94,
   CHR 0xE3, CHR 0x82, CHR 0x8A, CHR 0xE3, CHR 0x81, CHR 0xAA, CHR 0xE3, CHR 0x81, CHR 0x99,
   CHR 0xE8, CHR 0x87, CHR 0xB3, CHR 0xE7, CHR 0xA6, CHR 0x8F, CHR 0xE3, CHR 0x81, CHR 0xAE,
   CHR 0xE7, CHR 0x9E, CHR 0xAC, CHR 0xE9, CHR 0x96, CHR 0x93, CHR 0xE3, CHR 0x80, CHR 0x82,
   CHR 0xE3, CHR 0x80, CHR 0x8E, CHR 0xE4, CHR 0xBB, CHR 0x8A, CHR 0xE3, CHR 0x80, CHR 0x81,
   CHR 0xE3, CHR 0x81, CHR 0x93, CHR 0xE3, CHR 0x81, CHR 0xAE, CHR 0xE7, CHR 0x9E, CHR 0xAC,
   CHR 0xE9, CHR 0x96, CHR 0x93, CHR 0xE3, CHR 0x80, CHR 0x8F, CHR 0xE3, CHR 0x81, CHR 0xB8,
   CHR 0xE3, CHR 0x83, CHR 0x94, CHR 0xE3, CHR 0x83, CHR 0xB3, CHR 0xE3, CHR 0x83, CHR 0x88,
   CHR 0xE3, CHR 0x82, CHR 0x92, CHR 0xE5, CHR 0x90, CHR 0x88, CHR 0xE3, CHR 0x82, CHR 0x8F,
   CHR 0xE3, CHR 0x81, CHR 0x9B, CHR 0xE3, CHR 0x82, CHR 0x8B, CHR 0xE9, CHR 0x9F, CHR 0xB3,
   CHR 0xE6, CHR 0xA5, CHR 0xBD, CHR 0xE4, CHR 0xBD, CHR 0x93, CHR 0xE9, CHR 0xA8, CHR 0x93,
   CHR 0xE3, CHR 0x80, CHR 0x82]"

definition utf8_L101_1 :: string where
  "utf8_L101_1 =
   [CHR 0xE3, CHR 0x83, CHR 0x95, CHR 0xE3, CHR 0x82, CHR 0xA9, CHR 0xE3, CHR 0x83, CHR 0xAC,
   CHR 0xE3, CHR 0x82, CHR 0xB9, CHR 0xE3, CHR 0x83, CHR 0x88, CHR 0xE3, CHR 0x83, CHR 0xBB,
   CHR 0xE3, CHR 0x82, CHR 0xA4, CHR 0xE3, CHR 0x83, CHR 0xB3, CHR 0xE6, CHR 0xB4, CHR 0x9E,
   CHR 0xE5, CHR 0xB7, CHR 0x9D]"

definition utf8_L102_1 :: string where
  "utf8_L102_1 =
   [CHR 0xE5, CHR 0xA5, CHR 0x88, CHR 0xE8, CHR 0x89, CHR 0xAF, CHR 0xE7, CHR 0x9C, CHR 0x8C,
   CHR 0xE5, CHR 0xA4, CHR 0xA9, CHR 0xE5, CHR 0xB7, CHR 0x9D, CHR 0xE6, CHR 0x9D, CHR 0x91]"

definition utf8_L103_1 :: string where
  "utf8_L103_1 =
   [CHR 0xE7, CHR 0xA5, CHR 0x9E, CHR 0xE8, CHR 0x81, CHR 0x96, CHR 0xE3, CHR 0x81, CHR 0xAA,
   CHR 0xE8, CHR 0x87, CHR 0xAA, CHR 0xE7, CHR 0x84, CHR 0xB6, CHR 0xE7, CHR 0x92, CHR 0xB0,
   CHR 0xE5, CHR 0xA2, CHR 0x83]"

definition utf8_L103_2 :: string where
  "utf8_L103_2 =
   [CHR 0xE6, CHR 0xB8, CHR 0xA9, CHR 0xE6, CHR 0xB3, CHR 0x89, CHR 0xE8, CHR 0xA1, CHR 0x97]"

definition utf8_L103_3 :: string where
  "utf8_L103_3 =
   [CHR 0xE3, CHR 0x82, CHR 0xAD, CHR 0xE3, CHR 0x83, CHR 0xA3, CHR 0xE3, CHR 0x83, CHR 0xB3,
   CHR 0xE3, CHR 0x83, CHR 0x97, CHR 0xE5, CHR 0xA0, CHR 0xB4]"

definition utf8_L103_4 :: string where
  "utf8_L103_4 =
   [CHR 0xE6, CHR 0xB8, CHR 0x85, CHR 0xE6, CHR 0xB5, CHR 0x81]"

definition utf8_L104_1 :: string where
  "utf8_L104_1 =
   [CHR 0xE9, CHR 0x96, CHR 0xA2, CHR 0xE8, CHR 0xA5, CHR 0xBF, CHR 0xE3, CHR 0x81, CHR 0x8B,
   CHR 0xE3, CHR 0x82, CHR 0x89, CHR 0xE3, CHR 0x82, CHR 0xA2, CHR 0xE3, CHR 0x82, CHR 0xAF,
   CHR 0xE3, CHR 0x82, CHR 0xBB, CHR 0xE3, CHR 0x82, CHR 0xB9, CHR 0xE8, CHR 0x89, CHR 0xAF,
   CHR 0xE5, CHR 0xA5, CHR 0xBD, CHR 0xE3, CHR 0x81, CHR 0xAA, CHR 0xE7, CHR 0xA7, CHR 0x98,
   CHR 0xE5, CHR 0xA2, CHR 0x83, CHR 0xE3, CHR 0x81, CHR 0xAE, CHR 0xE5, CHR 0x9C, CHR 0xB0]"

definition utf8_L109_1 :: string where
  "utf8_L109_1 =
   [CHR 0xE3, CHR 0x83, CHR 0x97, CHR 0xE3, CHR 0x83, CHR 0xAD, CHR 0xE4, CHR 0xBB, CHR 0x95,
   CHR 0xE6, CHR 0xA7, CHR 0x98, CHR 0xE3, CHR 0x83, CHR 0xA9, CHR 0xE3, CHR 0x82, CHR 0xA4,
   CHR 0xE3, CHR 0x83, CHR 0xB3, CHR 0xE3, CHR 0x82, CHR 0xA2, CHR 0xE3, CHR 0x83, CHR 0xAC,
   CHR 0xE3, CHR 0x82, CHR 0xA4, CHR 0xE3, CHR 0x82, CHR 0xB9, CHR 0xE3, CHR 0x83, CHR 0x94,
   CHR 0xE3, CHR 0x83, CHR 0xBC, CHR 0xE3, CHR 0x82, CHR 0xAB, CHR 0xE3, CHR 0x83, CHR 0xBC,
   CHR 0xE3, CHR 0x81, CHR 0xAB, CHR 0xE3, CHR 0x82, CHR 0x88, CHR 0xE3, CHR 0x82, CHR 0x8B,
   CHR 0xE5, CHR 0x9C, CHR 0xA7, CHR 0xE5, CHR 0x80, CHR 0x92, CHR 0xE7, CHR 0x9A, CHR 0x84,
   CHR 0xE3, CHR 0x81, CHR 0xAA, CHR 0xE9, CHR 0x9F, CHR 0xB3, CHR 0xE8, CHR 0xB3, CHR 0xAA,
   CHR 0xE4, CHR 0xBD, CHR 0x93, CHR 0xE9, CHR 0xA8, CHR 0x93]"

definition utf8_L113_1 :: string where
  "utf8_L113_1 =
   [CHR 0xE3, CHR 0x82, CHR 0xAD, CHR 0xE3, CHR 0x83, CHR 0x83, CHR 0xE3, CHR 0x82, CHR 0xBA,
   CHR 0xE3, CHR 0x82, CHR 0xA8, CHR 0xE3, CHR 0x83, CHR 0xAA, CHR 0xE3, CHR 0x82, CHR 0xA2]"

definition utf8_L114_1 :: string where
  "utf8_L114_1 =
   [CHR 0xE5, CHR 0xAE, CHR 0x89, CHR 0xE5, CHR 0x85, CHR 0xA8, CHR 0xE3, CHR 0x81, CHR 0xAB,
   CHR 0xE9, CHR 0x85, CHR 0x8D, CHR 0xE6, CHR 0x85, CHR 0xAE, CHR 0xE3, CHR 0x81, CHR 0x97,
   CHR 0xE3, CHR 0x81, CHR 0x9F, CHR 0xE5, CHR 0xB0, CHR 0x82, CHR 0xE7, CHR 0x94, CHR 0xA8,
   CHR 0xE3, CHR 0x82, CHR 0xA8, CHR 0xE3, CHR 0x83, CHR 0xAA, CHR 0xE3, CHR 0x82, CHR 0xA2]"

definition utf8_L115_1 :: string where
  "utf8_L115_1 =
   [CHR 0xF0, CHR 0x9F, CHR 0x91, CHR 0xB6]"

definition utf8_L118_1 :: string where
  "utf8_L118_1 =
   [CHR 0xE3, CHR 0x81, CHR 0x93, CHR 0xE3, CHR 0x81, CHR 0xA9, CHR 0xE3, CHR 0x82, CHR 0x82,
   CHR 0xE3, CHR 0x81, CHR 0x94, CHR 0xE3, CHR 0x81, CHR 0xAF, CHR 0xE3, CHR 0x82, CHR 0x93]"

definition utf8_L119_1 :: string where
  "utf8_L119_1 =
   [CHR 0xE6, CHR 0xA0, CHR 0x84, CHR 0xE9, CHR 0xA4, CHR 0x8A, CHR 0xE3, CHR 0x83, CHR 0x90,
   CHR 0xE3, CHR 0x83, CHR 0xA9, CHR 0xE3, CHR 0x83, CHR 0xB3, CHR 0xE3, CHR 0x82, CHR 0xB9,
   CHR 0xE3, CHR 0x82, CHR 0x92, CHR 0xE8, CHR 0x80, CHR 0x83, CHR 0xE6, CHR 0x85, CHR 0xAE,
   CHR 0xE3, CHR 0x81, CHR 0x97, CHR 0xE3, CHR 0x81, CHR 0x9F, CHR 0xE3, CHR 0x83, CHR 0xA1,
   CHR 0xE3, CHR 0x83, CHR 0x8B, CHR 0xE3, CHR 0x83, CHR 0xA5, CHR 0xE3, CHR 0x83, CHR 0xBC]"

definition utf8_L120_1 :: string where
  "utf8_L120_1 =
   [CHR 0xF0, CHR 0x9F, CHR 0x8D, CHR 0xB1]"

definition utf8_L123_1 :: string where
  "utf8_L123_1 =
   [CHR 0xE4, CHR 0xBF, CHR 0x9D, CHR 0xE8, CHR 0x82, CHR 0xB2, CHR 0xE5, CHR 0xA3, CHR 0xAB,
   CHR 0xE5, CHR 0xB8, CHR 0xB8, CHR 0xE9, CHR 0xA7, CHR 0x90]"

definition utf8_L124_1 :: string where
  "utf8_L124_1 =
   [CHR 0xE8, CHR 0xB3, CHR 0x87, CHR 0xE6, CHR 0xA0, CHR 0xBC, CHR 0xE3, CHR 0x82, CHR 0x92,
   CHR 0xE6, CHR 0x8C, CHR 0x81, CHR 0xE3, CHR 0x81, CHR 0xA4, CHR 0xE3, CHR 0x82, CHR 0xB9,
   CHR 0xE3, CHR 0x82, CHR 0xBF, CHR 0xE3, CHR 0x83, CHR 0x83, CHR 0xE3, CHR 0x83, CHR 0x95,
   CHR 0xE3, CHR 0x81, CHR 0x8C, CHR 0xE5, CHR 0xB8, CHR 0xB8, CHR 0xE9, CHR 0xA7, CHR 0x90]"

definition utf8_L125_1 :: string where
  "utf8_L125_1 =
   [CHR 0xF0, CHR 0x9F, CHR 0x91, CHR 0xA9, CHR 0xE2, CHR 0x80, CHR 0x8D, CHR 0xE2, CHR 0x9A,
   CHR 0x95, CHR 0xEF, CHR 0xB8, CHR 0x8F]"

definition utf8_L128_1 :: string where
  "utf8_L128_1 =
   [CHR 0xE3, CHR 0x83, CHR 0xAF, CHR 0xE3, CHR 0x83, CHR 0xBC, CHR 0xE3, CHR 0x82, CHR 0xAF,
   CHR 0xE3, CHR 0x82, CHR 0xB7, CHR 0xE3, CHR 0x83, CHR 0xA7, CHR 0xE3, CHR 0x83, CHR 0x83,
   CHR 0xE3, CHR 0x83, CHR 0x97]"

definition utf8_L129_1 :: string where
  "utf8_L129_1 =
   [CHR 0xE5, CHR 0xA4, CHR 0x9A, CHR 0xE5, CHR 0xBD, CHR 0xA9, CHR 0xE3, CHR 0x81, CHR 0xAA,
   CHR 0xE3, CHR 0x82, CHR 0xA2, CHR 0xE3, CHR 0x82, CHR 0xAF, CHR 0xE3, CHR 0x83, CHR 0x86,
   CHR 0xE3, CHR 0x82, CHR 0xA3, CHR 0xE3, CHR 0x83, CHR 0x93, CHR 0xE3, CHR 0x83, CHR 0x86,
   CHR 0xE3, CHR 0x82, CHR 0xA3]"

definition utf8_L130_1 :: string where
  "utf8_L130_1 =
   [CHR 0xF0, CHR 0x9F, CHR 0x8E, CHR 0xA8]"

definition utf8_L134_1 :: string where
  "utf8_L134_1 =
   [CHR 0xE6, CHR 0x97, CHR 0xA9, CHR 0xE5, CHR 0x89, CHR 0xB2, CHR 0xE3, CHR 0x83, CHR 0x81,
   CHR 0xE3, CHR 0x82, CHR 0xB1, CHR 0xE3, CHR 0x83, CHR 0x83, CHR 0xE3, CHR 0x83, CHR 0x88]"

definition utf8_L135_1 :: string where
  "utf8_L135_1 =
   [CHR 0xE4, CHR 0xB8, CHR 0x80, CHR 0xE8, CHR 0x88, CHR 0xAC, CHR 0xE3, CHR 0x83, CHR 0x81,
   CHR 0xE3, CHR 0x82, CHR 0xB1, CHR 0xE3, CHR 0x83, CHR 0x83, CHR 0xE3, CHR 0x83, CHR 0x88]"

definition utf8_L136_1 :: string where
  "utf8_L136_1 =
   ''VIP'' @ [CHR 0xE4, CHR 0xBD, CHR 0x93, CHR 0xE9, CHR 0xA8, CHR 0x93, CHR 0xE3, CHR 0x83,
   CHR 0x81, CHR 0xE3, CHR 0x82, CHR 0xB1, CHR 0xE3, CHR 0x83, CHR 0x83, CHR 0xE3, CHR 0x83,
   CHR 0x88]"

definition utf8_L137_1 :: string where
  "utf8_L137_1 =
   [CHR 0xE3, CHR 0x83, CHR 0x95, CHR 0xE3, CHR 0x82, CHR 0xA1, CHR 0xE3, CHR 0x83, CHR 0x9F,
   CHR 0xE3, CHR 0x83, CHR 0xAA, CHR 0xE3, CHR 0x83, CHR 0xBC, CHR 0xE3, CHR 0x83, CHR 0x91,
   CHR 0xE3, CHR 0x83, CHR 0x83, CHR 0xE3, CHR 0x82, CHR 0xAF] @ ''('' @ [CHR 0xE5, CHR 0xA4,
   CHR 0xA7, CHR 0xE4, CHR 0xBA, CHR 0xBA] @ ''2'' @ [CHR 0xE5, CHR 0x90,
   CHR 0x8D] @ ''+'' @ [CHR 0xE5, CHR 0xAD, CHR 0x90, CHR 0xE4, CHR 0xBE,
   CHR 0x9B] @ ''2'' @ [CHR 0xE5, CHR 0x90, CHR 0x8D] @ '')''"

definition utf8_L148_1 :: string where
  "utf8_L148_1 =
   [CHR 0xE5, CHR 0xA4, CHR 0xA7, CHR 0xE9, CHR 0x98, CHR 0xAA]"

definition utf8_L151_1 :: string where
  "utf8_L151_1 =
   [CHR 0xE9, CHR 0x96, CHR 0xA2, CHR 0xE8, CHR 0xA5, CHR 0xBF, CHR 0xE3, CHR 0x80, CHR 0x9C,
   CHR 0xE5, CHR 0x85, CHR 0xA8, CHR 0xE5, CHR 0x9B, CHR 0xBD, CHR 0xE3, CHR 0x81, CHR 0xB8,
   CHR 0xE3, CHR 0x81, CHR 0xA8, CHR 0xE3, CHR 0x81, CHR 0x9D, CHR 0xE3, CHR 0x81, CHR 0xAE,
   CHR 0xE5, CHR 0xA0, CHR 0xB4, CHR 0xE3, CHR 0x81, CHR 0xAE, CHR 0xE7, CHR 0xA9, CHR 0xBA,
   CHR 0xE6, CHR 0xB0, CHR 0x97, CHR 0xE6, CHR 0x84, CHR 0x9F, CHR 0xE3, CHR 0x82, CHR 0x92,
   CHR 0xE5, CHR 0xA4, CHR 0xA7, CHR 0xE5, CHR 0x88, CHR 0x87, CHR 0xE3, CHR 0x81, CHR 0xAB,
   CHR 0xE3, CHR 0x81, CHR 0x97, CHR 0xE3, CHR 0x81, CHR 0x9F, CHR 0xE3, CHR 0x83, CHR 0x97,
   CHR 0xE3, CHR 0x83, CHR 0xAC, CHR 0xE3, CHR 0x82, CHR 0xA4, CHR 0xE3, CHR 0x81, CHR 0x8C,
   CHR 0xE6, CHR 0x8C, CHR 0x81, CHR 0xE3, CHR 0x81, CHR 0xA1, CHR 0xE5, CHR 0x91, CHR 0xB3,
   CHR 0xE3, CHR 0x80, CHR 0x82] @ ''Moment Festival'' @ [CHR 0xE3, CHR 0x81, CHR 0xAE,
   CHR 0xE4, CHR 0xB8, CHR 0xBB, CHR 0xE5, CHR 0x82, CHR 0xAC, CHR 0xE8, CHR 0x80, CHR 0x85,
   CHR 0xE3, CHR 0x81, CHR 0xA8, CHR 0xE3, CHR 0x81, CHR 0x97, CHR 0xE3, CHR 0x81, CHR 0xA6,
   CHR 0xE3, CHR 0x80, CHR 0x81, CHR 0xE5, CHR 0xA5, CHR 0x88, CHR 0xE8, CHR 0x89, CHR 0xAF,
   CHR 0xE7, CHR 0x9C, CHR 0x8C, CHR 0xE5, CHR 0xA4, CHR 0xA9, CHR 0xE5, CHR 0xB7, CHR 0x9D,
   CHR 0xE6, CHR 0x9D, CHR 0x91, CHR 0xE3, CHR 0x81, CHR 0xA7, CHR 0xE3, CHR 0x81, CHR 0xAE,
   CHR 0xE9, CHR 0x87, CHR 0x8E, CHR 0xE5, CHR 0xA4, CHR 0x96, CHR 0xE3, CHR 0x83, CHR 0x95,
   CHR 0xE3, CHR 0x82, CHR 0xA7, CHR 0xE3, CHR 0x82, CHR 0xB9, CHR 0xE3, CHR 0x83, CHR 0x86,
   CHR 0xE3, CHR 0x82, CHR 0xA3, CHR 0xE3, CHR 0x83, CHR 0x90, CHR 0xE3, CHR 0x83, CHR 0xAB,
   CHR 0xE3, CHR 0x82, CHR 0x92, CHR 0xE6, CHR 0x88, CHR 0x90, CHR 0xE5, CHR 0x8A, CHR 0x9F,
   CHR 0xE3, CHR 0x81, CHR 0xAB, CHR 0xE5, CHR 0xB0, CHR 0x8E, CHR 0xE3, CHR 0x81, CHR 0x8D,
   CHR 0xE3, CHR 0x80, CHR 0x81, CHR 0xE5, CHR 0xAE, CHR 0xB6, CHR 0xE6, CHR 0x97, CHR 0x8F,
   CHR 0xE3, CHR 0x82, CHR 0x82, CHR 0xE5, CHR 0x8F, CHR 0x82, CHR 0xE5, CHR 0x8A, CHR 0xA0,
   CHR 0xE3, CHR 0x81, CHR 0xA7, CHR 0xE3, CHR 0x81, CHR 0x8D, CHR 0xE3, CHR 0x82, CHR 0x8B,
   CHR 0xE6, CHR 0x96, CHR 0xB0, CHR 0xE3, CHR 0x81, CHR 0x97, CHR 0xE3, CHR 0x81, CHR 0x84,
   CHR 0xE5, CHR 0xBD, CHR 0xA2, CHR 0xE3, CHR 0x81, CHR 0xAE, CHR 0xE9, CHR 0x9F, CHR 0xB3,
   CHR 0xE6, CHR 0xA5, CHR 0xBD, CHR 0xE4, CHR 0xBD, CHR 0x93, CHR 0xE9, CHR 0xA8, CHR 0x93,
   CHR 0xE3, CHR 0x82, CHR 0x92, CHR 0xE6, CHR 0x8F, CHR 0x90, CHR 0xE6, CHR 0xA1, CHR 0x88,
   CHR 0xE3, CHR 0x81, CHR 0x97, CHR 0xE7, CHR 0xB6, CHR 0x9A, CHR 0xE3, CHR 0x81, CHR 0x91,
   CHR 0xE3, CHR 0x81, CHR 0xA6, CHR 0xE3, CHR 0x81, CHR 0x84, CHR 0xE3, CHR 0x82, CHR 0x8B,
   CHR 0xE3, CHR 0x80, CHR 0x82]"

definition utf8_L154_1 :: string where
  "utf8_L154_1 =
   [CHR 0xE7, CHR 0x9E, CHR 0x91, CHR 0xE6, CHR 0x83, CHR 0xB3, CHR 0xE7, CHR 0x9A, CHR 0x84,
   CHR 0xE4, CHR 0xBD, CHR 0x93, CHR 0xE9, CHR 0xA8, CHR 0x93]"

definition utf8_L155_1 :: string where
  "utf8_L155_1 =
   [CHR 0xE9, CHR 0x9F, CHR 0xB3, CHR 0xE6, CHR 0xA5, CHR 0xBD, CHR 0xE3, CHR 0x82, CHR 0x92,
   CHR 0xE9, CHR 0x80, CHR 0x9A, CHR 0xE3, CHR 0x81, CHR 0x98, CHR 0xE3, CHR 0x81, CHR 0xA6,
   CHR 0xE6, CHR 0xB7, CHR 0xB1, CHR 0xE3, CHR 0x81, CHR 0x84, CHR 0xE9, CHR 0x9B, CHR 0x86,
   CHR 0xE4, CHR 0xB8, CHR 0xAD, CHR 0xE7, CHR 0x8A, CHR 0xB6, CHR 0xE6, CHR 0x85, CHR 0x8B,
   CHR 0xE3, CHR 0x81, CHR 0xB8, CHR 0xE3, CHR 0x81, CHR 0xA8, CHR 0xE5, CHR 0xB0, CHR 0x8E,
   CHR 0xE3, CHR 0x81, CHR 0x8D, CHR 0xE3, CHR 0x80, CHR 0x81, CHR 0xE5, CHR 0x86, CHR 0x85,
   CHR 0xE3, CHR 0x81, CHR 0xAA, CHR 0xE3, CHR 0x82, CHR 0x8B, CHR 0xE5, CHR 0xB9, CHR 0xB3,
   CHR 0xE9, CHR 0x9D, CHR 0x99, CHR 0xE3, CHR 0x82, CHR 0x92, CHR 0xE8, CHR 0xA6, CHR 0x8B,
   CHR 0xE3, CHR 0x81, CHR 0xA4, CHR 0xE3, CHR 0x81, CHR 0x91, CHR 0xE3, CHR 0x82, CHR 0x8B]"

definition utf8_L156_1 :: string where
  "utf8_L156_1 =
   [CHR 0xF0, CHR 0x9F, CHR 0xA7, CHR 0x98]"

definition utf8_L159_1 :: string where
  "utf8_L159_1 =
   [CHR 0xE7, CHR 0x9E, CHR 0xAC, CHR 0xE9, CHR 0x96, CHR 0x93, CHR 0xE3, CHR 0x81, CHR 0xAE,
   CHR 0xE8, CHR 0xAA, CHR 0x8D, CHR 0xE8, CHR 0xAD, CHR 0x98]"

definition utf8_L160_1 :: string where
  "utf8_L160_1 =
   [CHR 0xE4, CHR 0xBB, CHR 0x8A, CHR 0xE3, CHR 0x81, CHR 0x93, CHR 0xE3, CHR 0x81, CHR 0xAE,
   CHR 0xE7, CHR 0x9E, CHR 0xAC, CHR 0xE9, CHR 0x96, CHR 0x93, CHR 0xE3, CHR 0x81, CHR 0xAE,
   CHR 0xE4, CHR 0xBE, CHR 0xA1, CHR 0xE5, CHR 0x80, CHR 0xA4, CHR 0xE3, CHR 0x82, CHR 0x92,
   CHR 0xE6, CHR 0x84, CHR 0x8F, CHR 0xE8, CHR 0xAD, CHR 0x98, CHR 0xE3, CHR 0x81, CHR 0x97,
   CHR 0xE3, CHR 0x80, CHR 0x81, CHR 0xE6, CHR 0x99, CHR 0x82, CHR 0xE9, CHR 0x96, CHR 0x93,
   CHR 0xE3, CHR 0x81, CHR 0xAE, CHR 0xE6, CHR 0xB5, CHR 0x81, CHR 0xE3, CHR 0x82, CHR 0x8C,
   CHR 0xE3, CHR 0x81, CHR 0xAB, CHR 0xE6, CHR 0x95, CHR 0x8F, CHR 0xE6, CHR 0x84, CHR 0x9F,
   CHR 0xE3, CHR 0x81, CHR 0xAB, CHR 0xE3, CHR 0x81, CHR 0xAA, CHR 0xE3, CHR 0x82, CHR 0x8B]"

definition utf8_L161_1 :: string where
  "utf8_L161_1 =
   [CHR 0xF0, CHR 0x9F, CHR 0x91, CHR 0x81, CHR 0xEF, CHR 0xB8, CHR 0x8F]"

definition utf8_L164_1 :: string where
  "utf8_L164_1 =
   [CHR 0xE6, CHR 0xB0, CHR 0xB8, CHR 0xE7, CHR 0xB6, CHR 0x9A, CHR 0xE7, CHR 0x9A, CHR 0x84,
   CHR 0xE4, CHR 0xBE, CHR 0xA1, CHR 0xE5, CHR 0x80, CHR 0xA4]"

definition utf8_L165_1 :: string where
  "utf8_L165_1 =
   [CHR 0xE4, CHR 0xB8, CHR 0x80, CHR 0xE7, CHR 0x9E, CHR 0xAC, CHR 0xE3, CHR 0x81, CHR 0xAE,
   CHR 0xE4, CHR 0xBD, CHR 0x93, CHR 0xE9, CHR 0xA8, CHR 0x93, CHR 0xE3, CHR 0x82,
   CHR 0x92] @ ''NFT'' @ [CHR 0xE3, CHR 0x81, CHR 0xA8, CHR 0xE3, CHR 0x81, CHR 0x97,
   CHR 0xE3, CHR 0x81, CHR 0xA6, CHR 0xE8, CHR 0xA8, CHR 0x98, CHR 0xE9, CHR 0x8C, CHR 0xB2,
   CHR 0xE3, CHR 0x81, CHR 0x97, CHR 0xE3, CHR 0x80, CHR 0x81, CHR 0xE6, CHR 0x9C, CHR 0xAA,
   CHR 0xE6, CHR 0x9D, CHR 0xA5, CHR 0xE3, CHR 0x81, CHR 0xB8, CHR 0xE3, CHR 0x81, CHR 0xA8,
   CHR 0xE7, CHR 0xB6, CHR 0x99, CHR 0xE6, CHR 0x89, CHR 0xBF, CHR 0xE3, CHR 0x81, CHR 0x99,
   CHR 0xE3, CHR 0x82, CHR 0x8B]"

definition utf8_L166_1 :: string where
  "utf8_L166_1 =
   [CHR 0xE2, CHR 0x99, CHR 0xBE, CHR 0xEF, CHR 0xB8, CHR 0x8F]"

definition utf8_L170_1 :: string where
  "utf8_L170_1 =
   [CHR 0xE5, CHR 0xA4, CHR 0xA7, CHR 0xE9, CHR 0x98, CHR 0xAA, CHR 0xE3, CHR 0x81, CHR 0xAE,
   CHR 0xE3, CHR 0x82, CHR 0xAF, CHR 0xE3, CHR 0x83, CHR 0xA9, CHR 0xE3, CHR 0x83, CHR 0x96,
   CHR 0xE3, CHR 0x80, CHR 0x8C] @ ''exodus'' @ [CHR 0xE3, CHR 0x80, CHR 0x8D, CHR 0xE3,
   CHR 0x82, CHR 0xAA, CHR 0xE3, CHR 0x83, CHR 0xBC, CHR 0xE3, CHR 0x83, CHR 0x97, CHR 0xE3,
   CHR 0x83, CHR 0x8B, CHR 0xE3, CHR 0x83, CHR 0xB3, CHR 0xE3, CHR 0x82, CHR 0xB0, CHR 0xE3,
   CHR 0x81, CHR 0xA7] @ ''DJ'' @ [CHR 0xE3, CHR 0x83, CHR 0x87, CHR 0xE3, CHR 0x83,
   CHR 0x93, CHR 0xE3, CHR 0x83, CHR 0xA5, CHR 0xE3, CHR 0x83, CHR 0xBC]"

definition utf8_L171_1 :: string where
  "utf8_L171_1 =
   [CHR 0xE9, CHR 0x96, CHR 0xA2, CHR 0xE8, CHR 0xA5, CHR 0xBF, CHR 0xE3, CHR 0x82, CHR 0xAF,
   CHR 0xE3, CHR 0x83, CHR 0xA9, CHR 0xE3, CHR 0x83, CHR 0x96, CHR 0xE3, CHR 0x82, CHR 0xB7,
   CHR 0xE3, CHR 0x83, CHR 0xBC, CHR 0xE3, CHR 0x83, CHR 0xB3, CHR 0xE3, CHR 0x81,
   CHR 0xA7] @ ''Psytrance'' @ [CHR 0xE3, CHR 0x81, CHR 0x8B, CHR 0xE3, CHR 0x82,
   CHR 0x89] @ ''Techno'' @ [CHR 0xE3, CHR 0x81, CHR 0xBE, CHR 0xE3, CHR 0x81, CHR 0xA7,
   CHR 0xE5, CHR 0xB9, CHR 0x85, CHR 0xE5, CHR 0xBA, CHR 0x83, CHR 0xE3, CHR 0x81, CHR 0x8F,
   CHR 0xE6, CHR 0xB4, CHR 0xBB, CHR 0xE5, CHR 0x8B, CHR 0x95]"

definition utf8_L172_1 :: string where
  "utf8_L172_1 =
   [CHR 0xE5, CHR 0x85, CHR 0xA8, CHR 0xE5, CHR 0x9B, CHR 0xBD, CHR 0xE5, CHR 0x90, CHR 0x84,
   CHR 0xE5, CHR 0x9C, CHR 0xB0, CHR 0xE3, CHR 0x81, CHR 0xAE, CHR 0xE3, CHR 0x83, CHR 0x95,
   CHR 0xE3, CHR 0x82, CHR 0xA7, CHR 0xE3, CHR 0x82, CHR 0xB9, CHR 0xE3, CHR 0x83, CHR 0x86,
   CHR 0xE3, CHR 0x82, CHR 0xA3, CHR 0xE3, CHR 0x83, CHR 0x90, CHR 0xE3, CHR 0x83, CHR 0xAB,
   CHR 0xE5, CHR 0x87, CHR 0xBA, CHR 0xE6, CHR 0xBC, CHR 0x94, CHR 0xE3, CHR 0x83, CHR 0xBB,
   CHR 0xE3, CHR 0x82, CHR 0xA4, CHR 0xE3, CHR 0x83, CHR 0x99, CHR 0xE3, CHR 0x83, CHR 0xB3,
   CHR 0xE3, CHR 0x83, CHR 0x88, CHR 0xE4, CHR 0xB8, CHR 0xBB, CHR 0xE5, CHR 0x82, CHR 0xAC,
   CHR 0xE6, CHR 0xB4, CHR 0xBB, CHR 0xE5, CHR 0x8B, CHR 0x95, CHR 0xE3, CHR 0x82, CHR 0x92,
   CHR 0xE6, CHR 0x8B, CHR 0xA1, CHR 0xE5, CHR 0xA4, CHR 0xA7]"

definition utf8_L173_1 :: string where
  "utf8_L173_1 =
   ''Moment Festival'' @ [CHR 0xE3, CHR 0x82, CHR 0x92, CHR 0xE5, CHR 0xA5, CHR 0x88, CHR 0xE8,
   CHR 0x89, CHR 0xAF, CHR 0xE7, CHR 0x9C, CHR 0x8C, CHR 0xE5, CHR 0xA4, CHR 0xA9, CHR 0xE5,
   CHR 0xB7, CHR 0x9D, CHR 0xE6, CHR 0x9D, CHR 0x91, CHR 0xE3, CHR 0x81, CHR 0xA7, CHR 0xE5,
   CHR 0x88, CHR 0x9D, CHR 0xE9, CHR 0x96, CHR 0x8B, CHR 0xE5, CHR 0x82, CHR 0xAC]"

definition utf8_L174_1 :: string where
  "utf8_L174_1 =
   ''Moment Festival'' @ [CHR 0xE6, CHR 0x8B, CHR 0xA1, CHR 0xE5, CHR 0xA4, CHR 0xA7, CHR 0xE3,
   CHR 0x83, CHR 0xBB, CHR 0xE9, CHR 0x9F, CHR 0xB3, CHR 0xE9, CHR 0x9F, CHR 0xBF, CHR 0xE3,
   CHR 0x82, CHR 0xB7, CHR 0xE3, CHR 0x82, CHR 0xB9, CHR 0xE3, CHR 0x83, CHR 0x86, CHR 0xE3,
   CHR 0x83, CHR 0xA0, CHR 0xE5, CHR 0xBC, CHR 0xB7, CHR 0xE5, CHR 0x8C, CHR 0x96, CHR 0xE3,
   CHR 0x83, CHR 0xBB, CHR 0xE5, CHR 0x9B, CHR 0xBD, CHR 0xE9, CHR 0x9A, CHR 0x9B, CHR 0xE7,
   CHR 0x9A, CHR 0x84, CHR 0xE3, CHR 0x82, CHR 0xA2, CHR 0xE3, CHR 0x83, CHR 0xBC, CHR 0xE3,
   CHR 0x83, CHR 0x86, CHR 0xE3, CHR 0x82, CHR 0xA3, CHR 0xE3, CHR 0x82, CHR 0xB9, CHR 0xE3,
   CHR 0x83, CHR 0x88, CHR 0xE6, CHR 0x8B, CHR 0x9B, CHR 0xE8, CHR 0x81, CHR 0x98]"

definition utf8_L175_1 :: string where
  "utf8_L175_1 =
   ''DJ'' @ [CHR 0xE6, CHR 0xB4, CHR 0xBB, CHR 0xE5, CHR 0x8B, CHR 0x95] @ ''20'' @ [CHR 0xE5,
   CHR 0x91, CHR 0xA8, CHR 0xE5, CHR 0xB9, CHR 0xB4] @ '' & Moment Festival 5'' @ [CHR 0xE5,
   CHR 0x91, CHR 0xA8, CHR 0xE5, CHR 0xB9, CHR 0xB4, CHR 0xE8, CHR 0xA8, CHR 0x98, CHR 0xE5,
   CHR 0xBF, CHR 0xB5]"

definition utf8_L233_1 :: string where
  "utf8_L233_1 =
   [CHR 0xE5, CHR 0xA4, CHR 0xA9, CHR 0xE5, CHR 0xB7, CHR 0x9D, CHR 0xE6, CHR 0x9D, CHR 0x91,
   CHR 0xE3, CHR 0x81, CHR 0xAE, CHR 0xE7, CHR 0xA5, CHR 0x9E, CHR 0xE8, CHR 0x81, CHR 0x96,
   CHR 0xE3, CHR 0x81, CHR 0xAA, CHR 0xE6, CHR 0x9C, CHR 0x9D, CHR 0xE6, CHR 0x97, CHR 0xA5,
   CHR 0xE3, CHR 0x81, CHR 0xA8] @ ''Psytrance'' @ [CHR 0xE3, CHR 0x81, CHR 0x8C, CHR 0xE8,
   CHR 0x9E, CHR 0x8D, CHR 0xE5, CHR 0x90, CHR 0x88, CHR 0xE3, CHR 0x81, CHR 0x97, CHR 0xE3,
   CHR 0x81, CHR 0x9F, CHR 0xE7, CHR 0x9E, CHR 0xAC, CHR 0xE9, CHR 0x96, CHR 0x93]"

definition utf8_L237_1 :: string where
  "utf8_L237_1 =
   [CHR 0xE5, CHR 0xA4, CHR 0xA9, CHR 0xE5, CHR 0xB7, CHR 0x9D, CHR 0xE6, CHR 0x9D, CHR 0x91]"

definition utf8_L241_1 :: string where
  "utf8_L241_1 =
   [CHR 0xE6, CHR 0xA3, CHR 0xAE, CHR 0xE3, CHR 0x81, CHR 0xAE, CHR 0xE9, CHR 0x9F, CHR 0xBF,
   CHR 0xE3, CHR 0x81, CHR 0x8D, CHR 0xE3, CHR 0x81, CHR 0xA8, CHR 0xE9, CHR 0x9B, CHR 0xBB,
   CHR 0xE5, CHR 0xAD, CHR 0x90, CHR 0xE9, CHR 0x9F, CHR 0xB3, CHR 0xE3, CHR 0x81, CHR 0xAE,
   CHR 0xE5, CHR 0xAE, CHR 0x8C, CHR 0xE7, CHR 0x92, CHR 0xA7, CHR 0xE3, CHR 0x81, CHR 0xAA,
   CHR 0xE8, CHR 0xAA, CHR 0xBF, CHR 0xE5, CHR 0x92, CHR 0x8C]"

definition utf8_L245_1 :: string where
  "utf8_L245_1 =
   [CHR 0xE5, CHR 0xA4, CHR 0xA9, CHR 0xE5, CHR 0xB7, CHR 0x9D, CHR 0xE6, CHR 0x9D, CHR 0x91]"

definition utf8_L249_1 :: string where
  "utf8_L249_1 =
   [CHR 0xE5, CHR 0xAE, CHR 0xB6, CHR 0xE6, CHR 0x97, CHR 0x8F, CHR 0xE3, CHR 0x81, CHR 0xA8,
   CHR 0xE9, CHR 0x9F, CHR 0xB3, CHR 0xE6, CHR 0xA5, CHR 0xBD, CHR 0xE3, CHR 0x81, CHR 0x8C,
   CHR 0xE4, CHR 0xB8, CHR 0x80, CHR 0xE3, CHR 0x81, CHR 0xA4, CHR 0xE3, CHR 0x81, CHR 0xAB,
   CHR 0xE3, CHR 0x81, CHR 0xAA, CHR 0xE3, CHR 0x81, CHR 0xA3, CHR 0xE3, CHR 0x81, CHR 0x9F,
   CHR 0xE7, CHR 0x89, CHR 0xB9, CHR 0xE5, CHR 0x88, CHR 0xA5, CHR 0xE3, CHR 0x81, CHR 0xAA,
   CHR 0xE7, CHR 0x9E, CHR 0xAC, CHR 0xE9, CHR 0x96, CHR 0x93]"

definition utf8_L253_1 :: string where
  "utf8_L253_1 =
   [CHR 0xE5, CHR 0xA4, CHR 0xA9, CHR 0xE5, CHR 0xB7, CHR 0x9D, CHR 0xE6, CHR 0x9D, CHR 0x91]"

text \<open>The festival built by \<^verbatim>\<open>startup_event\<close> (lines 94 to 139).\<close>

definition sample_festival :: "defaults \<Rightarrow> Festival" where
  "sample_festival d =
   \<lparr>fes_id = uuid4 d,
     fes_name = ''Moment Festival'',
     fes_year = 2025,
     fes_location = utf8_L97_1,
     fes_date = utf8_L98_1,
     fes_description = utf8_L99_1,
     fes_venue_info = [(''name'', PStr utf8_L101_1),
                       (''address'', PStr utf8_L102_1),
                       (''features'', PList [PStr utf8_L103_1, PStr utf8_L103_2, PStr utf8_L103_3, PStr utf8_L103_4]),
                       (''access'', PStr utf8_L104_1)],
     fes_sound_system = [(''primary'', PStr ''Alcons Audio''),
                         (''secondary'', PStr ''Function One''),
                         (''description'', PStr utf8_L109_1)],
     fes_family_services = [[(''name'', PStr utf8_L113_1),
                             (''description'', PStr utf8_L114_1),
                             (''icon'', PStr utf8_L115_1)],
                            [(''name'', PStr utf8_L118_1),
                             (''description'', PStr utf8_L119_1),
                             (''icon'', PStr utf8_L120_1)],
                            [(''name'', PStr utf8_L123_1),
                             (''description'', PStr utf8_L124_1),
                             (''icon'', PStr utf8_L125_1)],
                            [(''name'', PStr utf8_L128_1),
                             (''description'', PStr utf8_L129_1),
                             (''icon'', PStr utf8_L130_1)]],
     fes_ticket_info = [(''early_bird'', PDict [(''price'', PInt 15000),
                          (''description'', PStr utf8_L134_1)]),
                        (''regular'', PDict [(''price'', PInt 18000),
                          (''description'', PStr utf8_L135_1)]),
                        (''vip'', PDict [(''price'', PInt 35000),
                          (''description'', PStr utf8_L136_1)]),
                        (''family'', PDict [(''price'', PInt 40000),
                          (''description'', PStr utf8_L137_1)])],
     fes_created_at = utcnow d\<rparr>"

text \<open>The profile built by \<^verbatim>\<open>startup_event\<close> (lines 145 to 183).\<close>

definition sample_dj :: "defaults \<Rightarrow> DJProfile" where
  "sample_dj d =
   \<lparr>dj_id = uuid4 d,
     dj_name = ''Mike Senoh'',
     dj_stage_name = ''DJ Senoh'',
     dj_location = utf8_L148_1,
     dj_music_styles = [''Psytrance'', ''Techno'', ''Electronic Music''],
     dj_career_start = 2004,
     dj_bio = utf8_L151_1,
     dj_philosophy = [(''meditation'', PDict [(''title'', PStr utf8_L154_1),
                        (''description'', PStr utf8_L155_1),
                        (''icon'', PStr utf8_L156_1)]),
                      (''awareness'', PDict [(''title'', PStr utf8_L159_1),
                        (''description'', PStr utf8_L160_1),
                        (''icon'', PStr utf8_L161_1)]),
                      (''permanence'', PDict [(''title'', PStr utf8_L164_1),
                        (''description'', PStr utf8_L165_1),
                        (''icon'', PStr utf8_L166_1)])],
     dj_timeline = [[(''year'', PInt 2004),
                     (''event'', PStr utf8_L170_1)],
                    [(''year'', PStr ''2004-2014''),
                     (''event'', PStr utf8_L171_1)],
                    [(''year'', PStr ''2014-2020''),
                     (''event'', PStr utf8_L172_1)],
                    [(''year'', PInt 2021),
                     (''event'', PStr utf8_L173_1)],
                    [(''year'', PStr ''2021-2025''),
                     (''event'', PStr utf8_L174_1)],
                    [(''year'', PStr ''2024-2025''),
                     (''event'', PStr utf8_L175_1)]],
     dj_social_links = [(''soundcloud'', PStr ''@djsenoh''),
                        (''facebook'', PStr ''DJ Senoh Official''),
                        (''instagram'', PStr ''@moment_jp''),
                        (''twitter'', PStr ''@moment_jp'')],
     dj_created_at = utcnow d\<rparr>"

definition mock_nft_1 :: "defaults \<Rightarrow> NFTMoment" where
  "mock_nft_1 d =
   \<lparr>nft_id = uuid4 d,
     nft_title = ''Sunrise Moment #001'',
     nft_description = utf8_L233_1,
     nft_image_base64 =
       ''data:image/svg+xml;base64,PHN2ZyB3aWR0aD0iMzAwIiBoZWlnaHQ9IjMwMCIgdmlld0JveD0iMC'' @
       ''AwIDMwMCAzMDAiIGZpbGw9Im5vbmUiIHhtbG5zPSJodHRwOi8vd3d3LnczLm9yZy8yMDAwL3N2ZyI+Cj'' @
       ''xyZWN0IHdpZHRoPSIzMDAiIGhlaWdodD0iMzAwIiBmaWxsPSJibGFjayIvPgo8Y2lyY2xlIGN4PSIxNT'' @
       ''AiIGN5PSIxNTAiIHI9IjUwIiBmaWxsPSJ3aGl0ZSIvPgo8dGV4dCB4PSIxNTAiIHk9IjIyMCIgZmlsbD'' @
       ''0id2hpdGUiIHRleHQtYW5jaG9yPSJtaWRkbGUiIGZvbnQtZmFtaWx5PSJBcmlhbCIgZm9udC1zaXplPS'' @
       ''IxOCI+U3VucmlzZSAjMDAxPC90ZXh0Pgo8L3N2Zz4K'',
     nft_moment_timestamp = ''2024-07-26T06:30:00Z'',
     nft_rarity = ''legendary'',
     nft_attributes = [(''location'', PStr utf8_L237_1),
                       (''genre'', PStr ''Psytrance''),
                       (''time'', PStr ''Sunrise'')],
     nft_created_at = utcnow d\<rparr>"

definition mock_nft_2 :: "defaults \<Rightarrow> NFTMoment" where
  "mock_nft_2 d =
   \<lparr>nft_id = uuid4 d,
     nft_title = ''Forest Echo #002'',
     nft_description = utf8_L241_1,
     nft_image_base64 =
       ''data:image/svg+xml;base64,PHN2ZyB3aWR0aD0iMzAwIiBoZWlnaHQ9IjMwMCIgdmlld0JveD0iMC'' @
       ''AwIDMwMCAzMDAiIGZpbGw9Im5vbmUiIHhtbG5zPSJodHRwOi8vd3d3LnczLm9yZy8yMDAwL3N2ZyI+Cj'' @
       ''xyZWN0IHdpZHRoPSIzMDAiIGhlaWdodD0iMzAwIiBmaWxsPSIjMTExIi8+CjxwYXRoIGQ9Ik0xMDAgMT'' @
       ''AwIEwyMDAgMTAwIEwxNTAgMjAwIFoiIGZpbGw9IndoaXRlIi8+Cjx0ZXh0IHg9IjE1MCIgeT0iMjUwIi'' @
       ''BmaWxsPSJ3aGl0ZSIgdGV4dC1hbmNob3I9Im1pZGRsZSIgZm9udC1mYW1pbHk9IkFyaWFsIiBmb250LX'' @
       ''NpemU9IjE2Ij5Gb3Jlc3QgRWNobyAjMDAyPC90ZXh0Pgo8L3N2Zz4K'',
     nft_moment_timestamp = ''2024-07-26T22:15:00Z'',
     nft_rarity = ''rare'',
     nft_attributes = [(''location'', PStr utf8_L245_1),
                       (''genre'', PStr ''Electronic''),
                       (''time'', PStr ''Night'')],
     nft_created_at = utcnow d\<rparr>"

definition mock_nft_3 :: "defaults \<Rightarrow> NFTMoment" where
  "mock_nft_3 d =
   \<lparr>nft_id = uuid4 d,
     nft_title = ''Unity Flow #003'',
     nft_description = utf8_L249_1,
     nft_image_base64 =
       ''data:image/svg+xml;base64,PHN2ZyB3aWR0aD0iMzAwIiBoZWlnaHQ9IjMwMCIgdmlld0JveD0iMC'' @
       ''AwIDMwMCAzMDAiIGZpbGw9Im5vbmUiIHhtbG5zPSJodHRwOi8vd3d3LnczLm9yZy8yMDAwL3N2ZyI+Cj'' @
       ''xyZWN0IHdpZHRoPSIzMDAiIGhlaWdodD0iMzAwIiBmaWxsPSIjMDAwIi8+CjxjaXJjbGUgY3g9IjEwMC'' @
       ''IgY3k9IjEwMCIgcj0iMjAiIGZpbGw9IndoaXRlIi8+CjxjaXJjbGUgY3g9IjIwMCIgY3k9IjEwMCIgcj'' @
       ''0iMjAiIGZpbGw9IndoaXRlIi8+CjxjaXJjbGUgY3g9IjEwMCIgY3k9IjIwMCIgcj0iMjAiIGZpbGw9In'' @
       ''doaXRlIi8+CjxjaXJjbGUgY3g9IjIwMCIgY3k9IjIwMCIgcj0iMjAiIGZpbGw9IndoaXRlIi8+Cjx0ZX'' @
       ''h0IHg9IjE1MCIgeT0iMjcwIiBmaWxsPSJ3aGl0ZSIgdGV4dC1hbmNob3I9Im1pZGRsZSIgZm9udC1mYW'' @
       ''1pbHk9IkFyaWFsIiBmb250LXNpemU9IjE2Ij5Vbml0eSBGbG93ICMwMDM8L3RleHQ+Cjwvc3ZnPgo='',
     nft_moment_timestamp = ''2024-07-27T16:00:00Z'',
     nft_rarity = ''common'',
     nft_attributes = [(''location'', PStr utf8_L253_1),
                       (''genre'', PStr ''Ambient''),
                       (''time'', PStr ''Afternoon'')],
     nft_created_at = utcnow d\<rparr>"
section \<open>Operations\<close>

subsection \<open>Startup seeding\<close>

text \<open>
  \<^verbatim>\<open>startup_event\<close> (lines 89 to 184): each seed document is looked up by its name and is
  inserted when \<^verbatim>\<open>find_one\<close> returns nothing. \<open>d_fes\<close> and \<open>d_dj\<close> are the values that the
  constructions of the festival and of the profile draw, when they happen. The value is
  the store that the step leaves; a raise from \<^verbatim>\<open>insert_one\<close> ends the step with the store
  as it is at that point.
\<close>

definition startup_event :: "defaults \<Rightarrow> defaults \<Rightarrow> db \<Rightarrow> db" where
  "startup_event d_fes d_dj s =
    (case (case find_one (\<lambda>doc. fes_name doc = ''Moment Festival'') (festivals s) of
             None \<Rightarrow>
               (case insert_one Festival_ints (sample_festival d_fes) (festivals s) of
                  Inl e \<Rightarrow> Inl e
                | Inr coll \<Rightarrow> Inr (s\<lparr>festivals := coll\<rparr>))
           | Some existing_festival \<Rightarrow> Inr s) of
       Inl e \<Rightarrow> s
     | Inr s1 \<Rightarrow>
         (case find_one (\<lambda>doc. dj_stage_name doc = ''DJ Senoh'') (dj_profiles s1) of
            None \<Rightarrow>
              (case insert_one DJProfile_ints (sample_dj d_dj) (dj_profiles s1) of
                 Inl e \<Rightarrow> s1
               | Inr coll \<Rightarrow> s1\<lparr>dj_profiles := coll\<rparr>)
          | Some existing_dj \<Rightarrow> s1))"

text \<open>
  The seeding step run \<open>n\<close> times in a row; run number \<open>k\<close> (counted down from \<open>n\<close>) draws
  \<open>ds k\<close> for its two constructions.
\<close>

fun startup_times :: "(nat \<Rightarrow> defaults \<times> defaults) \<Rightarrow> nat \<Rightarrow> db \<Rightarrow> db" where
  "startup_times ds 0 s = s"
| "startup_times ds (Suc n) s =
     startup_times ds n (startup_event (fst (ds (Suc n))) (snd (ds (Suc n))) s)"

subsection \<open>Routes\<close>

text \<open>
  Each handler takes the store and returns its result, \<open>Inl\<close> for what it raises, with
  the store it leaves. In \<^verbatim>\<open>create_ticket_reservation\<close> the insert on line 224 comes before
  the return on line 225, so a raise from the insert returns no reservation.
\<close>

definition get_festivals :: "db \<Rightarrow> Festival list \<times> db" where
  "get_festivals s = (find_to_list 1000 (festivals s), s)"

definition get_festival :: "string \<Rightarrow> db \<Rightarrow> (raised + Festival) \<times> db" where
  "get_festival festival_id s =
    (case find_one (\<lambda>doc. fes_id doc = festival_id) (festivals s) of
       None \<Rightarrow> (Inl (HTTPException 404 ''Festival not found''), s)
     | Some festival \<Rightarrow> (Inr festival, s))"

definition get_dj_profile :: "db \<Rightarrow> (raised + DJProfile) \<times> db" where
  "get_dj_profile s =
    (case find_one (\<lambda>doc. dj_stage_name doc = ''DJ Senoh'') (dj_profiles s) of
       None \<Rightarrow> (Inl (HTTPException 404 ''DJ Profile not found''), s)
     | Some dj \<Rightarrow> (Inr dj, s))"

definition ticket_prices :: "(string \<times> int) list" where
  "ticket_prices =
    [(''early_bird'', 15000), (''regular'', 18000), (''vip'', 35000), (''family'', 40000)]"

definition create_ticket_reservation ::
  "defaults \<Rightarrow> TicketReservationCreate \<Rightarrow> db \<Rightarrow> (raised + TicketReservation) \<times> db" where
  "create_ticket_reservation d reservation_data s =
    (case find_one (\<lambda>doc. fes_id doc = req_festival_id reservation_data) (festivals s) of
       None \<Rightarrow> (Inl (HTTPException 404 ''Festival not found''), s)
     | Some festival \<Rightarrow>
        (let total_price =
               dict_get ticket_prices (req_ticket_type reservation_data) 18000
                 * req_quantity reservation_data;
             reservation =
               \<lparr>res_id = uuid4 d,
                res_festival_id = req_festival_id reservation_data,
                res_name = req_name reservation_data,
                res_email = req_email reservation_data,
                res_phone = req_phone reservation_data,
                res_ticket_type = req_ticket_type reservation_data,
                res_quantity = req_quantity reservation_data,
                res_total_price = total_price,
                res_status = ''pending'',
                res_created_at = utcnow d\<rparr>
         in (case insert_one TicketReservation_ints reservation (ticket_reservations s) of
               Inl e \<Rightarrow> (Inl e, s)
             | Inr coll \<Rightarrow> (Inr reservation, s\<lparr>ticket_reservations := coll\<rparr>))))"

text \<open>
  \<^verbatim>\<open>get_nft_moments\<close> (lines 227 to 256) builds its three records on every call; \<open>ds k\<close> is
  what the construction of record \<open>k\<close> draws.
\<close>

definition get_nft_moments :: "(nat \<Rightarrow> defaults) \<Rightarrow> db \<Rightarrow> NFTMoment list \<times> db" where
  "get_nft_moments ds s = ([mock_nft_1 (ds 0), mock_nft_2 (ds 1), mock_nft_3 (ds 2)], s)"

text \<open>The router: one request, dispatched to its handler.\<close>

datatype request =
    GET_festivals
  | GET_festival string
  | GET_dj_profile
  | GET_nft_moments
  | POST_ticket_reservation TicketReservationCreate

datatype response =
    Festivals "Festival list"
  | FestivalDoc Festival
  | DJProfileDoc DJProfile
  | NFTMoments "NFTMoment list"
  | TicketReservationDoc TicketReservation
  | Failed raised

fun api_router :: "(nat \<Rightarrow> defaults) \<Rightarrow> request \<Rightarrow> db \<Rightarrow> response \<times> db" where
  "api_router ds GET_festivals s =
     (case get_festivals s of (fs, s') \<Rightarrow> (Festivals fs, s'))"
| "api_router ds (GET_festival festival_id) s =
     (case get_festival festival_id s of
        (Inl e, s') \<Rightarrow> (Failed e, s')
      | (Inr f, s') \<Rightarrow> (FestivalDoc f, s'))"
| "api_router ds GET_dj_profile s =
     (case get_dj_profile s of
        (Inl e, s') \<Rightarrow> (Failed e, s')
      | (Inr p, s') \<Rightarrow> (DJProfileDoc p, s'))"
| "api_router ds GET_nft_moments s =
     (case get_nft_moments ds s of (ms, s') \<Rightarrow> (NFTMoments ms, s'))"
| "api_router ds (POST_ticket_reservation reservation_data) s =
     (case create_ticket_reservation (ds 0) reservation_data s of
        (Inl e, s') \<Rightarrow> (Failed e, s')
      | (Inr r, s') \<Rightarrow> (TicketReservationDoc r, s'))"

section \<open>Vocabulary of the properties\<close>

text \<open>
  The documents that the seeding step looks for, the price that a festival document
  advertises for a ticket type (\<^verbatim>\<open>ticket_info[T]["price"]\<close>), and the fields of a moment
  record that are written in the source (all but \<^verbatim>\<open>id\<close> and \<^verbatim>\<open>created_at\<close>).
\<close>

definition seed_festivals :: "db \<Rightarrow> Festival list" where
  "seed_festivals s = filter (\<lambda>doc. fes_name doc = ''Moment Festival'') (festivals s)"

definition seed_profiles :: "db \<Rightarrow> DJProfile list" where
  "seed_profiles s = filter (\<lambda>doc. dj_stage_name doc = ''DJ Senoh'') (dj_profiles s)"


definition nft_content :: "NFTMoment \<Rightarrow> string \<times> string \<times> string \<times> string \<times> string \<times> pydict" where
  "nft_content m =
    (nft_title m, nft_description m, nft_image_base64 m, nft_moment_timestamp m,
     nft_rarity m, nft_attributes m)"

section \<open>Concrete stores and requests\<close>

text \<open>
  Values drawn by six constructions, the empty store, the store after one startup, a
  reservation request for the seeded festival, the same request for 10^15 tickets, one for
  an unknown festival, a store of
  1001 festival documents, and a store that holds the seed festival twice.
\<close>

definition d_A :: defaults where
  "d_A = \<lparr>uuid4 = ''6f1c2a9e-0b7d-4c58-9a3e-5d2f8b1c7e40'', utcnow = 1753488000000000\<rparr>"

definition d_B :: defaults where
  "d_B = \<lparr>uuid4 = ''b84e07d3-9c21-4f6a-8e15-2a7c9d0f3b66'', utcnow = 1753488000250000\<rparr>"

definition d_C :: defaults where
  "d_C = \<lparr>uuid4 = ''0a5d93f7-62be-4d18-b7c4-e19f30a8d251'', utcnow = 1753488000500000\<rparr>"

definition d_D :: defaults where
  "d_D = \<lparr>uuid4 = ''d2c7416b-f380-49ae-a05b-7e61c8f942d3'', utcnow = 1753491600000000\<rparr>"

definition d_E :: defaults where
  "d_E = \<lparr>uuid4 = ''57e08b2c-1d9f-4a63-9c70-84b5f2e6a1c9'', utcnow = 1753491600250000\<rparr>"

definition d_F :: defaults where
  "d_F = \<lparr>uuid4 = ''c91a3e58-7b04-4f2d-8d16-0f3a6b9e5c72'', utcnow = 1753491600500000\<rparr>"

definition first_call :: "nat \<Rightarrow> defaults" where
  "first_call k = (if k = 0 then d_A else if k = 1 then d_B else d_C)"

definition second_call :: "nat \<Rightarrow> defaults" where
  "second_call k = (if k = 0 then d_D else if k = 1 then d_E else d_F)"

definition seed_draws :: "nat \<Rightarrow> defaults \<times> defaults" where
  "seed_draws k = (if k = 2 then (d_A, d_B) else if k = 1 then (d_C, d_D) else (d_E, d_F))"

definition empty_store :: db where
  "empty_store = \<lparr>festivals = [], dj_profiles = [], ticket_reservations = []\<rparr>"

definition seeded_store :: db where
  "seeded_store = startup_event d_A d_B empty_store"

definition sample_request :: TicketReservationCreate where
  "sample_request =
    \<lparr>req_festival_id = ''6f1c2a9e-0b7d-4c58-9a3e-5d2f8b1c7e40'',
     req_name = ''Tanaka Taro'',
     req_email = ''tanaka.taro@example.com'',
     req_phone = ''090-1234-5678'',
     req_ticket_type = ''early_bird'',
     req_quantity = 2\<rparr>"


definition unknown_request :: TicketReservationCreate where
  "unknown_request = sample_request\<lparr>req_festival_id := ''invalid-festival-id''\<rparr>"

definition numbered_festival :: "nat \<Rightarrow> Festival" where
  "numbered_festival k =
     sample_festival \<lparr>uuid4 = ''festival-'' @ replicate k (CHR ''i''), utcnow = k\<rparr>"

definition crowded_store :: db where
  "crowded_store =
    \<lparr>festivals = map numbered_festival [0..<1000] @ [sample_festival d_A],
     dj_profiles = [sample_dj d_B],
     ticket_reservations = []\<rparr>"

definition twice_seeded_store :: db where
  "twice_seeded_store =
    \<lparr>festivals = [sample_festival d_A, sample_festival d_C],
     dj_profiles = [sample_dj d_B],
     ticket_reservations = []\<rparr>"

section \<open>Properties\<close>

subsection \<open>Lookups and prices\<close>

lemma find_one_None: "find_one P xs = None \<longleftrightarrow> \<not> (\<exists>x \<in> set xs. P x)"
  by (auto simp: find_one_def find_None_iff)

lemma find_one_Some_D: "find_one P xs = Some x \<Longrightarrow> x \<in> set xs \<and> P x"
  by (auto simp: find_one_def find_Some_iff)

lemma find_one_id_ex:
  "fid \<in> set (map fes_id fs) \<Longrightarrow> \<exists>f. find_one (\<lambda>doc. fes_id doc = fid) fs = Some f"
  by (cases "find_one (\<lambda>doc. fes_id doc = fid) fs") (auto simp: find_one_None)

lemma find_one_id_None:
  "fid \<notin> set (map fes_id fs) \<Longrightarrow> find_one (\<lambda>doc. fes_id doc = fid) fs = None"
  by (auto simp: find_one_None)

lemma find_one_filter_Nil: "find_one P xs = None \<longleftrightarrow> filter P xs = []"
  by (auto simp: find_one_None filter_empty_conv)

lemma unit_price_cases:
  "dict_get ticket_prices t 18000 =
     (if t = ''early_bird'' then 15000
      else if t = ''regular'' then 18000
      else if t = ''vip'' then 35000
      else if t = ''family'' then 40000
      else 18000)"
  by (simp add: dict_get_def ticket_prices_def)


lemma insert_one_fits:
  "list_all fits_int64 (ints doc) \<Longrightarrow> insert_one ints doc coll = Inr (coll @ [doc])"
  by (simp add: insert_one_def)

subsection \<open>The seed documents and the seeded store\<close>

lemma sample_festival_name: "fes_name (sample_festival d) = ''Moment Festival''"
  and sample_festival_year: "fes_year (sample_festival d) = 2025"
  and sample_festival_id: "fes_id (sample_festival d) = uuid4 d"
  by (simp_all add: sample_festival_def)

lemma sample_dj_stage_name: "dj_stage_name (sample_dj d) = ''DJ Senoh''"
  by (simp add: sample_dj_def)

lemma sample_festival_insert:
  "insert_one Festival_ints (sample_festival d) coll = Inr (coll @ [sample_festival d])"
  by (rule insert_one_fits)
     (simp add: Festival_ints_def pydict_ints_def sample_festival_def fits_int64_def)

lemma sample_dj_insert:
  "insert_one DJProfile_ints (sample_dj d) coll = Inr (coll @ [sample_dj d])"
  by (rule insert_one_fits)
     (simp add: DJProfile_ints_def pydict_ints_def sample_dj_def fits_int64_def)

lemma seeded_store_festivals: "festivals seeded_store = [sample_festival d_A]"
  by (simp add: seeded_store_def startup_event_def empty_store_def find_one_def
        sample_festival_insert sample_dj_insert)

lemma seeded_store_profiles: "dj_profiles seeded_store = [sample_dj d_B]"
  by (simp add: seeded_store_def startup_event_def empty_store_def find_one_def
        sample_festival_insert sample_dj_insert)

lemma seeded_store_reservations: "ticket_reservations seeded_store = []"
  by (simp add: seeded_store_def startup_event_def empty_store_def find_one_def
        sample_festival_insert sample_dj_insert)

lemma seeded_store_ids: "map fes_id (festivals seeded_store) = [uuid4 d_A]"
  by (simp add: seeded_store_festivals sample_festival_id)

lemma seeded_store_seed_festivals: "seed_festivals seeded_store = [sample_festival d_A]"
  by (simp add: seed_festivals_def seeded_store_festivals sample_festival_name)

lemma seeded_store_seed_profiles: "seed_profiles seeded_store = [sample_dj d_B]"
  by (simp add: seed_profiles_def seeded_store_profiles sample_dj_stage_name)

lemma startup_event_seeded:
  assumes "seed_festivals s \<noteq> []" and "seed_profiles s \<noteq> []"
  shows "startup_event d_fes d_dj s = s"
proof -
  from assms(1) obtain f where
    f: "find_one (\<lambda>doc. fes_name doc = ''Moment Festival'') (festivals s) = Some f"
    by (cases "find_one (\<lambda>doc. fes_name doc = ''Moment Festival'') (festivals s)")
       (auto simp: find_one_filter_Nil seed_festivals_def)
  from assms(2) obtain p where
    p: "find_one (\<lambda>doc. dj_stage_name doc = ''DJ Senoh'') (dj_profiles s) = Some p"
    by (cases "find_one (\<lambda>doc. dj_stage_name doc = ''DJ Senoh'') (dj_profiles s)")
       (auto simp: find_one_filter_Nil seed_profiles_def)
  show ?thesis
    by (simp add: startup_event_def f p)
qed

lemma startup_event_unseeded:
  assumes "seed_festivals s = []" and "seed_profiles s = []"
  shows "startup_event d_fes d_dj s =
           s\<lparr>festivals := festivals s @ [sample_festival d_fes],
             dj_profiles := dj_profiles s @ [sample_dj d_dj]\<rparr>"
proof -
  have f: "find_one (\<lambda>doc. fes_name doc = ''Moment Festival'') (festivals s) = None"
    using assms(1) by (simp add: find_one_filter_Nil seed_festivals_def)
  have p: "find_one (\<lambda>doc. dj_stage_name doc = ''DJ Senoh'') (dj_profiles s) = None"
    using assms(2) by (simp add: find_one_filter_Nil seed_profiles_def)
  show ?thesis
    by (simp add: startup_event_def f p sample_festival_insert sample_dj_insert)
qed

lemma startup_times_seeded:
  "seed_festivals s \<noteq> [] \<Longrightarrow> seed_profiles s \<noteq> [] \<Longrightarrow> startup_times ds n s = s"
  by (induction n) (simp_all add: startup_event_seeded)

lemma startup_times_unseeded:
  assumes "seed_festivals s = []" and "seed_profiles s = []" and "0 < n"
  shows "startup_times ds n s =
           s\<lparr>festivals := festivals s @ [sample_festival (fst (ds n))],
             dj_profiles := dj_profiles s @ [sample_dj (snd (ds n))]\<rparr>"
proof -
  from assms(3) obtain m where n: "n = Suc m"
    by (cases n) auto
  let ?s1 = "startup_event (fst (ds n)) (snd (ds n)) s"
  have s1: "?s1 = s\<lparr>festivals := festivals s @ [sample_festival (fst (ds n))],
                     dj_profiles := dj_profiles s @ [sample_dj (snd (ds n))]\<rparr>"
    by (rule startup_event_unseeded [OF assms(1,2)])
  have "seed_festivals ?s1 \<noteq> []" and "seed_profiles ?s1 \<noteq> []"
    by (simp_all add: s1 seed_festivals_def seed_profiles_def sample_festival_name
                      sample_dj_stage_name)
  then have "startup_times ds m ?s1 = ?s1"
    by (rule startup_times_seeded)
  then show ?thesis
    by (simp add: n s1 [unfolded n])
qed

subsection \<open>Reservations\<close>

lemma create_ticket_reservation_found:
  assumes "find_one (\<lambda>doc. fes_id doc = req_festival_id req) (festivals s) = Some f"
  shows "fits_int64 (req_quantity req)
           \<and> fits_int64 (dict_get ticket_prices (req_ticket_type req) 18000 * req_quantity req)
         \<Longrightarrow> \<exists>r. create_ticket_reservation d req s =
                   (Inr r, s\<lparr>ticket_reservations := ticket_reservations s @ [r]\<rparr>)"
    and "\<not> (fits_int64 (req_quantity req)
           \<and> fits_int64 (dict_get ticket_prices (req_ticket_type req) 18000 * req_quantity req))
         \<Longrightarrow> create_ticket_reservation d req s = (Inl OverflowError, s)"
    and "fst (create_ticket_reservation d req s) = Inr r
         \<Longrightarrow> snd (create_ticket_reservation d req s) =
               s\<lparr>ticket_reservations := ticket_reservations s @ [r]\<rparr>
             \<and> res_quantity r = req_quantity req
             \<and> res_total_price r =
                 dict_get ticket_prices (req_ticket_type req) 18000 * req_quantity req"
  by (auto simp: create_ticket_reservation_def Let_def insert_one_def TicketReservation_ints_def
        assms split: if_splits)

lemma sample_request_found:
  "req_festival_id sample_request \<in> set (map fes_id (festivals seeded_store))"
  by (simp add: seeded_store_ids sample_request_def d_A_def)



text \<open>
  C2: when the request's festival id is the id of no stored festival, the operation fails
  with status 404 and detail \<^verbatim>\<open>Festival not found\<close>, and the store, in particular the
  collection of reservations, is left as it was.
\<close>

theorem create_ticket_reservation_unknown_festival:
  assumes "req_festival_id req \<notin> set (map fes_id (festivals s))"
  shows "create_ticket_reservation d req s =
           (Inl (HTTPException 404 ''Festival not found''), s)
       \<and> ticket_reservations (snd (create_ticket_reservation d req s)) = ticket_reservations s"
  using find_one_id_None [OF assms]
  by (simp add: create_ticket_reservation_def)

theorem create_ticket_reservation_unknown_festival_witness:
  "req_festival_id unknown_request \<notin> set (map fes_id (festivals seeded_store))
   \<and> create_ticket_reservation d_C unknown_request seeded_store =
       (Inl (HTTPException 404 ''Festival not found''), seeded_store)"
proof -
  have h: "req_festival_id unknown_request \<notin> set (map fes_id (festivals seeded_store))"
    by (simp add: seeded_store_ids unknown_request_def sample_request_def d_A_def)
  from create_ticket_reservation_unknown_festival [OF h, of d_C] h
  show ?thesis by simp
qed




subsection \<open>Festival routes\<close>

text \<open>
  C3, as the code has it: the listing returns the first 1000 festival documents of the
  collection in store order, hence all of them when the collection holds at most 1000,
  and the empty list when it is empty; the store is left as it was.
\<close>

theorem get_festivals_first_1000:
  "fst (get_festivals s) = take 1000 (festivals s)
   \<and> (length (festivals s) \<le> 1000 \<longrightarrow> fst (get_festivals s) = festivals s)
   \<and> (festivals s = [] \<longrightarrow> fst (get_festivals s) = [])
   \<and> snd (get_festivals s) = s"
  by (simp add: get_festivals_def find_to_list_def)

theorem get_festivals_first_1000_witness:
  "length (festivals seeded_store) \<le> 1000
   \<and> fst (get_festivals seeded_store) = [sample_festival d_A]
   \<and> festivals empty_store = []
   \<and> fst (get_festivals empty_store) = []"
  using get_festivals_first_1000 [of seeded_store] get_festivals_first_1000 [of empty_store]
  by (simp add: seeded_store_festivals empty_store_def)

lemma numbered_festival_neq: "numbered_festival k \<noteq> sample_festival d_A"
proof
  assume "numbered_festival k = sample_festival d_A"
  then have "fes_id (numbered_festival k) = fes_id (sample_festival d_A)"
    by simp
  then show False
    by (simp add: numbered_festival_def sample_festival_id d_A_def)
qed

text \<open>
  C3 as stated fails on a collection of 1001 documents: the last one is in the store and
  not in the response, since \<^verbatim>\<open>to_list(1000)\<close> stops after 1000 documents.
\<close>

theorem get_festivals_all_counterexample:
  "sample_festival d_A \<in> set (festivals crowded_store)
   \<and> sample_festival d_A \<notin> set (fst (get_festivals crowded_store))"
proof -
  have "fst (get_festivals crowded_store) = map numbered_festival [0..<1000]"
    by (simp add: get_festivals_def find_to_list_def crowded_store_def)
  moreover have "sample_festival d_A \<notin> set (map numbered_festival [0..<1000])"
  proof
    assume "sample_festival d_A \<in> set (map numbered_festival [0..<1000])"
    then obtain k where "numbered_festival k = sample_festival d_A"
      by (auto simp del: upt_Suc)
    with numbered_festival_neq show False
      by blast
  qed
  ultimately show ?thesis
    by (simp add: crowded_store_def)
qed

text \<open>
  C7: a festival returned by the detail route is a stored document whose id is the path
  parameter; one is returned whenever some stored festival has that id; and the route fails
  with status 404 and detail \<^verbatim>\<open>Festival not found\<close> exactly when no stored festival has
  that id. The store is left as it was.
\<close>

theorem get_festival_found_or_404:
  "(\<forall>f. fst (get_festival festival_id s) = Inr f
          \<longrightarrow> f \<in> set (festivals s) \<and> fes_id f = festival_id)
   \<and> (festival_id \<in> set (map fes_id (festivals s))
          \<longrightarrow> (\<exists>f. fst (get_festival festival_id s) = Inr f))
   \<and> (fst (get_festival festival_id s) = Inl (HTTPException 404 ''Festival not found'')
          \<longleftrightarrow> festival_id \<notin> set (map fes_id (festivals s)))
   \<and> snd (get_festival festival_id s) = s"
proof (cases "find_one (\<lambda>doc. fes_id doc = festival_id) (festivals s)")
  case None
  have "festival_id \<notin> set (map fes_id (festivals s))"
    using None by (auto simp: find_one_None)
  then show ?thesis
    by (simp add: get_festival_def None)
next
  case (Some f)
  from find_one_Some_D [OF Some] show ?thesis
    using Some by (auto simp: get_festival_def)
qed

theorem get_festival_found_or_404_witness:
  "uuid4 d_A \<in> set (map fes_id (festivals seeded_store))
   \<and> fst (get_festival (uuid4 d_A) seeded_store) = Inr (sample_festival d_A)
   \<and> ''invalid-festival-id'' \<notin> set (map fes_id (festivals seeded_store))
   \<and> fst (get_festival ''invalid-festival-id'' seeded_store) =
       Inl (HTTPException 404 ''Festival not found'')"
proof -
  have h1: "uuid4 d_A \<in> set (map fes_id (festivals seeded_store))"
    by (simp add: seeded_store_ids)
  have h2: "''invalid-festival-id'' \<notin> set (map fes_id (festivals seeded_store))"
    by (simp add: seeded_store_ids d_A_def)
  from get_festival_found_or_404 [of "uuid4 d_A" seeded_store] h1
  obtain f where f: "fst (get_festival (uuid4 d_A) seeded_store) = Inr f"
    by blast
  with get_festival_found_or_404 [of "uuid4 d_A" seeded_store]
  have "f \<in> set (festivals seeded_store)"
    by blast
  then have "f = sample_festival d_A"
    by (simp add: seeded_store_festivals)
  with f h1 h2 get_festival_found_or_404 [of "''invalid-festival-id''" seeded_store]
  show ?thesis by simp
qed

subsection \<open>Moment records\<close>

lemma mock_nft_content:
  "nft_content (mock_nft_1 d) = nft_content (mock_nft_1 d')"
  "nft_content (mock_nft_2 d) = nft_content (mock_nft_2 d')"
  "nft_content (mock_nft_3 d) = nft_content (mock_nft_3 d')"
  by (simp_all add: nft_content_def mock_nft_1_def mock_nft_2_def mock_nft_3_def)

text \<open>
  C4, as the code has it: any two calls, on any two stores, return lists that agree on
  title, description, image, moment timestamp, rarity and attributes; the \<^verbatim>\<open>id\<close> and
  \<^verbatim>\<open>created_at\<close> of each record are the values drawn during the call; the result does not
  depend on the store and the store is left as it was.
\<close>

theorem get_nft_moments_stable_fields:
  "map nft_content (fst (get_nft_moments ds s)) = map nft_content (fst (get_nft_moments ds' s'))
   \<and> map nft_id (fst (get_nft_moments ds s)) = [uuid4 (ds 0), uuid4 (ds 1), uuid4 (ds 2)]
   \<and> map nft_created_at (fst (get_nft_moments ds s)) = [utcnow (ds 0), utcnow (ds 1), utcnow (ds 2)]
   \<and> fst (get_nft_moments ds s) = fst (get_nft_moments ds s')
   \<and> snd (get_nft_moments ds s) = s"
  using mock_nft_content [of "ds 0" "ds' 0"] mock_nft_content [of "ds 1" "ds' 1"]
    mock_nft_content [of "ds 2" "ds' 2"]
  by (simp add: get_nft_moments_def mock_nft_1_def mock_nft_2_def mock_nft_3_def)

text \<open>
  C4 as stated fails: two calls that draw different identifiers return different lists.
\<close>

theorem get_nft_moments_identical_counterexample:
  "fst (get_nft_moments first_call seeded_store) \<noteq> fst (get_nft_moments second_call seeded_store)"
  by (simp add: get_nft_moments_def mock_nft_1_def first_call_def second_call_def d_A_def d_D_def)

lemma mock_nft_1_facts:
  "nft_title (mock_nft_1 d) = ''Sunrise Moment #001''"
  "nft_rarity (mock_nft_1 d) = ''legendary''"
  "startswith (nft_image_base64 (mock_nft_1 d)) ''data:image/svg+xml;base64,''"
  by (simp_all add: mock_nft_1_def startswith_def)

lemma mock_nft_2_facts:
  "nft_title (mock_nft_2 d) = ''Forest Echo #002''"
  "nft_rarity (mock_nft_2 d) = ''rare''"
  "startswith (nft_image_base64 (mock_nft_2 d)) ''data:image/svg+xml;base64,''"
  by (simp_all add: mock_nft_2_def startswith_def)

lemma mock_nft_3_facts:
  "nft_title (mock_nft_3 d) = ''Unity Flow #003''"
  "nft_rarity (mock_nft_3 d) = ''common''"
  "startswith (nft_image_base64 (mock_nft_3 d)) ''data:image/svg+xml;base64,''"
  by (simp_all add: mock_nft_3_def startswith_def)

text \<open>
  C6: every call returns exactly three records, titled \<^verbatim>\<open>Sunrise Moment #001\<close>,
  \<^verbatim>\<open>Forest Echo #002\<close> and \<^verbatim>\<open>Unity Flow #003\<close> in this order; every rarity is one of
  \<^verbatim>\<open>legendary\<close>, \<^verbatim>\<open>rare\<close>, \<^verbatim>\<open>common\<close>, and every image starts with
  \<^verbatim>\<open>data:image/svg+xml;base64,\<close>.
\<close>

theorem get_nft_moments_listing:
  "length (fst (get_nft_moments ds s)) = 3
   \<and> map nft_title (fst (get_nft_moments ds s)) =
        [''Sunrise Moment #001'', ''Forest Echo #002'', ''Unity Flow #003'']
   \<and> list_all (\<lambda>m. nft_rarity m \<in> set [''legendary'', ''rare'', ''common''])
        (fst (get_nft_moments ds s))
   \<and> list_all (\<lambda>m. startswith (nft_image_base64 m) ''data:image/svg+xml;base64,'')
        (fst (get_nft_moments ds s))"
  by (simp add: get_nft_moments_def mock_nft_1_facts mock_nft_2_facts mock_nft_3_facts)

subsection \<open>Seeding\<close>

text \<open>
  C5, as the code has it: on a store that already holds a festival named
  \<^verbatim>\<open>Moment Festival\<close> and a profile with stage name \<^verbatim>\<open>DJ Senoh\<close>, any number of seeding runs
  leaves the store as it was, so a store that held exactly one of each still holds exactly
  that one of each; and on a store that holds neither, one or more runs leave exactly one
  such festival, of year 2025, and exactly one such profile.
\<close>

theorem startup_event_idempotent:
  "(seed_festivals s \<noteq> [] \<and> seed_profiles s \<noteq> [] \<longrightarrow> startup_times ds n s = s)
   \<and> (seed_festivals s = [f] \<and> seed_profiles s = [p]
        \<longrightarrow> seed_festivals (startup_times ds n s) = [f]
          \<and> seed_profiles (startup_times ds n s) = [p])
   \<and> (seed_festivals s = [] \<and> seed_profiles s = [] \<and> 0 < n
        \<longrightarrow> seed_festivals (startup_times ds n s) = [sample_festival (fst (ds n))]
          \<and> fes_year (sample_festival (fst (ds n))) = 2025
          \<and> seed_profiles (startup_times ds n s) = [sample_dj (snd (ds n))])"
proof (intro conjI impI)
  assume "seed_festivals s \<noteq> [] \<and> seed_profiles s \<noteq> []"
  then show "startup_times ds n s = s"
    by (simp add: startup_times_seeded)
next
  assume a: "seed_festivals s = [f] \<and> seed_profiles s = [p]"
  then have "startup_times ds n s = s"
    by (simp add: startup_times_seeded)
  with a show "seed_festivals (startup_times ds n s) = [f]"
    and "seed_profiles (startup_times ds n s) = [p]"
    by simp_all
next
  assume a: "seed_festivals s = [] \<and> seed_profiles s = [] \<and> 0 < n"
  then have eq: "startup_times ds n s =
           s\<lparr>festivals := festivals s @ [sample_festival (fst (ds n))],
             dj_profiles := dj_profiles s @ [sample_dj (snd (ds n))]\<rparr>"
    by (simp add: startup_times_unseeded)
  from a have ff: "filter (\<lambda>doc. fes_name doc = ''Moment Festival'') (festivals s) = []"
    and pp: "filter (\<lambda>doc. dj_stage_name doc = ''DJ Senoh'') (dj_profiles s) = []"
    by (simp_all add: seed_festivals_def seed_profiles_def)
  show "seed_festivals (startup_times ds n s) = [sample_festival (fst (ds n))]"
    by (simp add: eq seed_festivals_def ff sample_festival_name)
  show "fes_year (sample_festival (fst (ds n))) = 2025"
    by (rule sample_festival_year)
  show "seed_profiles (startup_times ds n s) = [sample_dj (snd (ds n))]"
    by (simp add: eq seed_profiles_def pp sample_dj_stage_name)
qed

theorem startup_event_idempotent_witness:
  "seed_festivals seeded_store \<noteq> [] \<and> seed_profiles seeded_store \<noteq> []
   \<and> startup_times seed_draws 3 seeded_store = seeded_store
   \<and> seed_festivals seeded_store = [sample_festival d_A]
   \<and> seed_profiles seeded_store = [sample_dj d_B]
   \<and> seed_festivals (startup_times seed_draws 3 seeded_store) = [sample_festival d_A]
   \<and> seed_profiles (startup_times seed_draws 3 seeded_store) = [sample_dj d_B]
   \<and> seed_festivals empty_store = [] \<and> seed_profiles empty_store = [] \<and> (0::nat) < 2
   \<and> seed_festivals (startup_times seed_draws 2 empty_store) = [sample_festival d_A]
   \<and> seed_profiles (startup_times seed_draws 2 empty_store) = [sample_dj d_B]"
proof -
  have e: "seed_festivals empty_store = []" "seed_profiles empty_store = []"
    by (simp_all add: seed_festivals_def seed_profiles_def empty_store_def)
  have d: "fst (seed_draws 2) = d_A" "snd (seed_draws 2) = d_B"
    by (simp_all add: seed_draws_def)
  from startup_event_idempotent
         [of seeded_store seed_draws 3 "sample_festival d_A" "sample_dj d_B"]
       startup_event_idempotent
         [of empty_store seed_draws 2 "sample_festival d_A" "sample_dj d_B"]
  show ?thesis
    by (simp add: seeded_store_seed_festivals seeded_store_seed_profiles e d)
qed

text \<open>
  C5 as stated fails on a store that already holds the seed festival twice: it holds a
  festival of that name and a profile of that stage name, and after a seeding run it
  still holds two festivals of that name, not exactly one.
\<close>

theorem startup_event_exactly_one_counterexample:
  "seed_festivals twice_seeded_store \<noteq> []
   \<and> seed_profiles twice_seeded_store \<noteq> []
   \<and> length (seed_festivals (startup_times seed_draws 1 twice_seeded_store)) = 2"
  by (simp add: twice_seeded_store_def seed_festivals_def seed_profiles_def
        startup_event_def find_one_def sample_festival_name sample_dj_stage_name)



subsection \<open>Frame of the routes\<close>

text \<open>
  C8: no request deletes or changes a stored document. After any request the festivals and
  the profiles are the same lists; a reservation is returned only by the reservation route,
  and then the reservations are the former ones followed by exactly the returned document;
  every request that does not return a reservation, and every request to one of the four
  reading routes, leaves the whole store as it was.
\<close>

theorem api_router_frame:
  "festivals (snd (api_router ds req s)) = festivals s
   \<and> dj_profiles (snd (api_router ds req s)) = dj_profiles s
   \<and> (\<forall>r. fst (api_router ds req s) = TicketReservationDoc r
          \<longrightarrow> (\<exists>body. req = POST_ticket_reservation body)
            \<and> ticket_reservations (snd (api_router ds req s)) = ticket_reservations s @ [r])
   \<and> ((\<forall>r. fst (api_router ds req s) \<noteq> TicketReservationDoc r)
          \<longrightarrow> snd (api_router ds req s) = s)
   \<and> ((\<forall>body. req \<noteq> POST_ticket_reservation body) \<longrightarrow> snd (api_router ds req s) = s)"
proof (cases req)
  case GET_festivals
  then show ?thesis by (simp add: get_festivals_def)
next
  case (GET_festival fid)
  then show ?thesis by (simp add: get_festival_def split: option.split)
next
  case GET_dj_profile
  then show ?thesis by (simp add: get_dj_profile_def split: option.split)
next
  case GET_nft_moments
  then show ?thesis by (simp add: get_nft_moments_def)
next
  case (POST_ticket_reservation body)
  then show ?thesis
    by (simp add: create_ticket_reservation_def insert_one_def Let_def split: option.split)
qed

theorem api_router_frame_witness:
  "(\<exists>r. fst (api_router first_call (POST_ticket_reservation sample_request) seeded_store)
            = TicketReservationDoc r
        \<and> ticket_reservations
             (snd (api_router first_call (POST_ticket_reservation sample_request) seeded_store))
            = [r])
   \<and> festivals (snd (api_router first_call (POST_ticket_reservation sample_request) seeded_store))
        = [sample_festival d_A]
   \<and> (\<forall>body. GET_festivals \<noteq> POST_ticket_reservation body)
   \<and> snd (api_router first_call GET_festivals seeded_store) = seeded_store"
proof -
  from sample_request_found obtain f where
    f: "find_one (\<lambda>doc. fes_id doc = req_festival_id sample_request) (festivals seeded_store)
          = Some f"
    using find_one_id_ex by blast
  have "fits_int64 (req_quantity sample_request)
        \<and> fits_int64 (dict_get ticket_prices (req_ticket_type sample_request) 18000
                        * req_quantity sample_request)"
    by (simp add: sample_request_def unit_price_cases fits_int64_def)
  from create_ticket_reservation_found(1) [OF f this, of "first_call 0"]
  obtain r where
    r: "fst (api_router first_call (POST_ticket_reservation sample_request) seeded_store)
          = TicketReservationDoc r"
    by auto
  from api_router_frame [of first_call "POST_ticket_reservation sample_request" seeded_store]
       api_router_frame [of first_call GET_festivals seeded_store] r
  show ?thesis
    by (simp add: seeded_store_festivals seeded_store_reservations)
qed

end
